theory Spec2Isabelle
  imports Complex_Main "HOL-Library.Word"
begin

unbundle bit_operations_syntax

section \<open>Event records of the SDL3 binding\<close>

text \<open>
  The binding stores one native event in a region of \<open>SizeOfSdlEvent\<close> bytes and reads it
  through typed projections chosen by the leading 32-bit tag.  The development below
  follows \<^verbatim>\<open>gen/events.ts\<close> (class \<open>EventUnion\<close>) and the wrapper module that
  defines the classes \<open>Event\<close> and \<open>EventArray\<close>.
\<close>

type_synonym u8 = "8 word"
type_synonym u32 = "32 word"
type_synonym u64 = "64 word"
type_synonym bytes = "u8 list"

definition SizeOfSdlEvent :: nat where
  "SizeOfSdlEvent = 128"

subsection \<open>The enumeration of event types\<close>

text \<open>
  \<open>EventType\<close> is imported from \<^verbatim>\<open>gen/enums/SDL_events.ts\<close>.  A TypeScript enum is an
  object whose properties are looked up by name, so it is a function from member names
  to numbers; every definition that mentions a member takes the enumeration as its first
  argument and the theorems hold for every numbering.
\<close>

type_synonym EventType = "string \<Rightarrow> u32"

subsection \<open>Projections\<close>

text \<open>
  One constructor per getter of \<open>EventUnion\<close>: \<open>get_quit\<close> stands for
  \<^verbatim>\<open>get quit()\<close>, which is \<^verbatim>\<open>_.read_QuitEvent(this.dt)\<close>, and so on.  The readers
  themselves live in \<^verbatim>\<open>gen/structs/SDL_events.ts\<close>; they are a parameter
  \<open>rd\<close> that turns the bytes seen through the view into a record.
\<close>

datatype projection =
    get_common | get_display | get_window | get_keyboardDevice
  | get_keyboard | get_textEditing | get_textEditingCandidates | get_textInput
  | get_mouseDevice | get_mouseMotion | get_mouseButton | get_mouseWheel
  | get_joyAxis | get_joyBall | get_joyHat | get_joyButton
  | get_joyDevice | get_joyBattery | get_gamepadAxis | get_gamepadButton
  | get_gamepadDevice | get_gamepadTouchpad | get_gamepadSensor | get_audioDevice
  | get_cameraDevice | get_render | get_touchFinger | get_pinchFinger
  | get_penProximity | get_penMotion | get_penTouch | get_penButton
  | get_penAxis | get_drop | get_clipboard | get_sensor
  | get_quit | get_user

text \<open>
  The \<^verbatim>\<open>case\<close> labels of the \<^verbatim>\<open>switch\<close> in \<open>toObject\<close>, in source order,
  each with the getter its branch returns.
\<close>

definition toObject_cases :: "(string \<times> projection) list" where
  "toObject_cases = [
     (''QUIT'', get_quit), (''DISPLAY_ORIENTATION'', get_display),
     (''DISPLAY_ADDED'', get_display), (''DISPLAY_REMOVED'', get_display),
     (''DISPLAY_MOVED'', get_display), (''DISPLAY_DESKTOP_MODE_CHANGED'', get_display),
     (''DISPLAY_CURRENT_MODE_CHANGED'', get_display), (''DISPLAY_CONTENT_SCALE_CHANGED'', get_display),
     (''DISPLAY_USABLE_BOUNDS_CHANGED'', get_display), (''WINDOW_SHOWN'', get_window),
     (''WINDOW_HIDDEN'', get_window), (''WINDOW_EXPOSED'', get_window),
     (''WINDOW_MOVED'', get_window), (''WINDOW_RESIZED'', get_window),
     (''WINDOW_PIXEL_SIZE_CHANGED'', get_window), (''WINDOW_METAL_VIEW_RESIZED'', get_window),
     (''WINDOW_MINIMIZED'', get_window), (''WINDOW_MAXIMIZED'', get_window),
     (''WINDOW_RESTORED'', get_window), (''WINDOW_MOUSE_ENTER'', get_window),
     (''WINDOW_MOUSE_LEAVE'', get_window), (''WINDOW_FOCUS_GAINED'', get_window),
     (''WINDOW_FOCUS_LOST'', get_window), (''WINDOW_CLOSE_REQUESTED'', get_window),
     (''WINDOW_HIT_TEST'', get_window), (''WINDOW_ICCPROF_CHANGED'', get_window),
     (''WINDOW_DISPLAY_CHANGED'', get_window), (''WINDOW_DISPLAY_SCALE_CHANGED'', get_window),
     (''WINDOW_SAFE_AREA_CHANGED'', get_window), (''WINDOW_OCCLUDED'', get_window),
     (''WINDOW_ENTER_FULLSCREEN'', get_window), (''WINDOW_LEAVE_FULLSCREEN'', get_window),
     (''WINDOW_DESTROYED'', get_window), (''WINDOW_HDR_STATE_CHANGED'', get_window),
     (''KEY_DOWN'', get_keyboard), (''KEY_UP'', get_keyboard),
     (''TEXT_EDITING'', get_textEditing), (''TEXT_INPUT'', get_textInput),
     (''KEYBOARD_ADDED'', get_keyboardDevice), (''KEYBOARD_REMOVED'', get_keyboardDevice),
     (''TEXT_EDITING_CANDIDATES'', get_textEditingCandidates), (''MOUSE_MOTION'', get_mouseMotion),
     (''MOUSE_BUTTON_DOWN'', get_mouseButton), (''MOUSE_BUTTON_UP'', get_mouseButton),
     (''MOUSE_WHEEL'', get_mouseWheel), (''MOUSE_ADDED'', get_mouseDevice),
     (''MOUSE_REMOVED'', get_mouseDevice), (''JOYSTICK_AXIS_MOTION'', get_joyAxis),
     (''JOYSTICK_BALL_MOTION'', get_joyBall), (''JOYSTICK_HAT_MOTION'', get_joyHat),
     (''JOYSTICK_BUTTON_DOWN'', get_joyButton), (''JOYSTICK_BUTTON_UP'', get_joyButton),
     (''JOYSTICK_ADDED'', get_joyDevice), (''JOYSTICK_REMOVED'', get_joyDevice),
     (''JOYSTICK_BATTERY_UPDATED'', get_joyBattery), (''JOYSTICK_UPDATE_COMPLETE'', get_joyDevice),
     (''GAMEPAD_AXIS_MOTION'', get_gamepadAxis), (''GAMEPAD_BUTTON_DOWN'', get_gamepadButton),
     (''GAMEPAD_BUTTON_UP'', get_gamepadButton), (''GAMEPAD_ADDED'', get_gamepadDevice),
     (''GAMEPAD_REMOVED'', get_gamepadDevice), (''GAMEPAD_REMAPPED'', get_gamepadDevice),
     (''GAMEPAD_TOUCHPAD_DOWN'', get_gamepadTouchpad), (''GAMEPAD_TOUCHPAD_MOTION'', get_gamepadTouchpad),
     (''GAMEPAD_TOUCHPAD_UP'', get_gamepadTouchpad), (''GAMEPAD_SENSOR_UPDATE'', get_gamepadSensor),
     (''GAMEPAD_UPDATE_COMPLETE'', get_gamepadDevice), (''GAMEPAD_STEAM_HANDLE_UPDATED'', get_gamepadDevice),
     (''FINGER_DOWN'', get_touchFinger), (''FINGER_UP'', get_touchFinger),
     (''FINGER_MOTION'', get_touchFinger), (''FINGER_CANCELED'', get_touchFinger),
     (''PINCH_BEGIN'', get_pinchFinger), (''PINCH_UPDATE'', get_pinchFinger),
     (''PINCH_END'', get_pinchFinger), (''CLIPBOARD_UPDATE'', get_clipboard),
     (''DROP_FILE'', get_drop), (''DROP_TEXT'', get_drop),
     (''DROP_BEGIN'', get_drop), (''DROP_COMPLETE'', get_drop),
     (''DROP_POSITION'', get_drop), (''AUDIO_DEVICE_ADDED'', get_audioDevice),
     (''AUDIO_DEVICE_REMOVED'', get_audioDevice), (''AUDIO_DEVICE_FORMAT_CHANGED'', get_audioDevice),
     (''SENSOR_UPDATE'', get_sensor), (''PEN_PROXIMITY_IN'', get_penProximity),
     (''PEN_PROXIMITY_OUT'', get_penProximity), (''PEN_DOWN'', get_penTouch),
     (''PEN_UP'', get_penTouch), (''PEN_BUTTON_DOWN'', get_penButton),
     (''PEN_BUTTON_UP'', get_penButton), (''PEN_MOTION'', get_penMotion),
     (''PEN_AXIS'', get_penAxis), (''CAMERA_DEVICE_ADDED'', get_cameraDevice),
     (''CAMERA_DEVICE_REMOVED'', get_cameraDevice), (''CAMERA_DEVICE_APPROVED'', get_cameraDevice),
     (''CAMERA_DEVICE_DENIED'', get_cameraDevice), (''RENDER_TARGETS_RESET'', get_render),
     (''RENDER_DEVICE_RESET'', get_render), (''RENDER_DEVICE_LOST'', get_render),
     (''USER'', get_user)]"

text \<open>
  A \<^verbatim>\<open>switch\<close> compares the scrutinee with each label by strict equality, top to
  bottom, and runs the first branch that matches; otherwise the \<^verbatim>\<open>default\<close> branch.
\<close>

fun switch_first :: "EventType \<Rightarrow> u32 \<Rightarrow> (string \<times> projection) list \<Rightarrow> projection option" where
  "switch_first ET t [] = None"
| "switch_first ET t ((name, p) # cs) = (if t = ET name then Some p else switch_first ET t cs)"

definition toObject_select :: "EventType \<Rightarrow> u32 \<Rightarrow> projection" where
  "toObject_select ET t =
     (case switch_first ET t toObject_cases of
        Some p \<Rightarrow> p
      | None \<Rightarrow> (if t \<ge> ET ''USER'' \<and> t \<le> ET ''LAST'' then get_user else get_common))"


text \<open>
  A numbering to evaluate the definitions on concrete tags: the values that SDL 3's
  \<^verbatim>\<open>SDL_events.h\<close> gives the members used in this file.  No theorem depends on it
  except through instantiation.
\<close>

definition sample_values :: "(string \<times> u32) list" where
  "sample_values = [
     (''QUIT'', 0x100), (''DISPLAY_ORIENTATION'', 0x151), (''DISPLAY_ADDED'', 0x152),
     (''DISPLAY_REMOVED'', 0x153), (''DISPLAY_MOVED'', 0x154), (''DISPLAY_DESKTOP_MODE_CHANGED'', 0x155),
     (''DISPLAY_CURRENT_MODE_CHANGED'', 0x156), (''DISPLAY_CONTENT_SCALE_CHANGED'', 0x157), (''DISPLAY_USABLE_BOUNDS_CHANGED'', 0x158),
     (''WINDOW_SHOWN'', 0x202), (''WINDOW_HIDDEN'', 0x203), (''WINDOW_EXPOSED'', 0x204),
     (''WINDOW_MOVED'', 0x205), (''WINDOW_RESIZED'', 0x206), (''WINDOW_PIXEL_SIZE_CHANGED'', 0x207),
     (''WINDOW_METAL_VIEW_RESIZED'', 0x208), (''WINDOW_MINIMIZED'', 0x209), (''WINDOW_MAXIMIZED'', 0x20A),
     (''WINDOW_RESTORED'', 0x20B), (''WINDOW_MOUSE_ENTER'', 0x20C), (''WINDOW_MOUSE_LEAVE'', 0x20D),
     (''WINDOW_FOCUS_GAINED'', 0x20E), (''WINDOW_FOCUS_LOST'', 0x20F), (''WINDOW_CLOSE_REQUESTED'', 0x210),
     (''WINDOW_HIT_TEST'', 0x211), (''WINDOW_ICCPROF_CHANGED'', 0x212), (''WINDOW_DISPLAY_CHANGED'', 0x213),
     (''WINDOW_DISPLAY_SCALE_CHANGED'', 0x214), (''WINDOW_SAFE_AREA_CHANGED'', 0x215), (''WINDOW_OCCLUDED'', 0x216),
     (''WINDOW_ENTER_FULLSCREEN'', 0x217), (''WINDOW_LEAVE_FULLSCREEN'', 0x218), (''WINDOW_DESTROYED'', 0x219),
     (''WINDOW_HDR_STATE_CHANGED'', 0x21A), (''KEY_DOWN'', 0x300), (''KEY_UP'', 0x301),
     (''TEXT_EDITING'', 0x302), (''TEXT_INPUT'', 0x303), (''KEYMAP_CHANGED'', 0x304),
     (''KEYBOARD_ADDED'', 0x305), (''KEYBOARD_REMOVED'', 0x306), (''TEXT_EDITING_CANDIDATES'', 0x307),
     (''MOUSE_MOTION'', 0x400), (''MOUSE_BUTTON_DOWN'', 0x401), (''MOUSE_BUTTON_UP'', 0x402),
     (''MOUSE_WHEEL'', 0x403), (''MOUSE_ADDED'', 0x404), (''MOUSE_REMOVED'', 0x405),
     (''JOYSTICK_AXIS_MOTION'', 0x600), (''JOYSTICK_BALL_MOTION'', 0x601), (''JOYSTICK_HAT_MOTION'', 0x602),
     (''JOYSTICK_BUTTON_DOWN'', 0x603), (''JOYSTICK_BUTTON_UP'', 0x604), (''JOYSTICK_ADDED'', 0x605),
     (''JOYSTICK_REMOVED'', 0x606), (''JOYSTICK_BATTERY_UPDATED'', 0x607), (''JOYSTICK_UPDATE_COMPLETE'', 0x608),
     (''GAMEPAD_AXIS_MOTION'', 0x650), (''GAMEPAD_BUTTON_DOWN'', 0x651), (''GAMEPAD_BUTTON_UP'', 0x652),
     (''GAMEPAD_ADDED'', 0x653), (''GAMEPAD_REMOVED'', 0x654), (''GAMEPAD_REMAPPED'', 0x655),
     (''GAMEPAD_TOUCHPAD_DOWN'', 0x656), (''GAMEPAD_TOUCHPAD_MOTION'', 0x657), (''GAMEPAD_TOUCHPAD_UP'', 0x658),
     (''GAMEPAD_SENSOR_UPDATE'', 0x659), (''GAMEPAD_UPDATE_COMPLETE'', 0x65A), (''GAMEPAD_STEAM_HANDLE_UPDATED'', 0x65B),
     (''FINGER_DOWN'', 0x700), (''FINGER_UP'', 0x701), (''FINGER_MOTION'', 0x702),
     (''FINGER_CANCELED'', 0x703), (''PINCH_BEGIN'', 0x710), (''PINCH_UPDATE'', 0x711),
     (''PINCH_END'', 0x712), (''CLIPBOARD_UPDATE'', 0x900), (''DROP_FILE'', 0x1000),
     (''DROP_TEXT'', 0x1001), (''DROP_BEGIN'', 0x1002), (''DROP_COMPLETE'', 0x1003),
     (''DROP_POSITION'', 0x1004), (''AUDIO_DEVICE_ADDED'', 0x1100), (''AUDIO_DEVICE_REMOVED'', 0x1101),
     (''AUDIO_DEVICE_FORMAT_CHANGED'', 0x1102), (''SENSOR_UPDATE'', 0x1200), (''PEN_PROXIMITY_IN'', 0x1300),
     (''PEN_PROXIMITY_OUT'', 0x1301), (''PEN_DOWN'', 0x1302), (''PEN_UP'', 0x1303),
     (''PEN_BUTTON_DOWN'', 0x1304), (''PEN_BUTTON_UP'', 0x1305), (''PEN_MOTION'', 0x1306),
     (''PEN_AXIS'', 0x1307), (''CAMERA_DEVICE_ADDED'', 0x1400), (''CAMERA_DEVICE_REMOVED'', 0x1401),
     (''CAMERA_DEVICE_APPROVED'', 0x1402), (''CAMERA_DEVICE_DENIED'', 0x1403), (''RENDER_TARGETS_RESET'', 0x2000),
     (''RENDER_DEVICE_RESET'', 0x2001), (''RENDER_DEVICE_LOST'', 0x2002), (''USER'', 0x8000),
     (''LAST'', 0xFFFF)]"

definition sample_EventType :: EventType where
  "sample_EventType name = (case map_of sample_values name of Some v \<Rightarrow> v | None \<Rightarrow> 0)"

subsection \<open>Errors and views\<close>

text \<open>
  \<open>Error msg\<close> is \<^verbatim>\<open>throw new Error(msg)\<close>; \<open>RangeError\<close> is what the runtime throws
  when a typed array or a \<open>DataView\<close> is created outside its buffer.
\<close>

datatype error = Error string | RangeError

text \<open>A \<open>DataView\<close> is a window of \<open>byteLength\<close> bytes at \<open>byteOffset\<close> of a buffer.\<close>

record DataView =
  byteOffset :: nat
  byteLength :: nat

definition DataView_bytes :: "DataView \<Rightarrow> bytes \<Rightarrow> bytes" where
  "DataView_bytes v mem = take (byteLength v) (drop (byteOffset v) mem)"

text \<open>
  Writing through a view changes the bytes of its window and nothing else: the writer
  \<open>wr\<close> maps the old content of the window to the new one, and what it returns is cut or
  completed to the window's length.
\<close>

definition DataView_modify :: "DataView \<Rightarrow> (bytes \<Rightarrow> bytes) \<Rightarrow> bytes \<Rightarrow> bytes" where
  "DataView_modify v wr mem =
     (let old = DataView_bytes v mem;
          new = wr old
      in take (byteOffset v) mem
         @ take (length old) (new @ drop (length new) old)
         @ drop (byteOffset v + byteLength v) mem)"

subsection \<open>Class \<open>Event\<close>: one record\<close>

text \<open>
  \<open>buffer\<close> is the memory at \<^verbatim>\<open>this.pointer\<close>: the private 128-byte array of the object,
  or the record a non-owned pointer refers to.  \<open>type\<close> is the field \<^verbatim>\<open>type\<close>, the tag
  cached by \<open>readType_\<close>; a new object has \<open>type = 0\<close>.
\<close>

record Event =
  buffer :: bytes
  type :: u32

definition Event_new :: Event where
  "Event_new = \<lparr>buffer = replicate SizeOfSdlEvent 0, type = 0\<rparr>"

text \<open>\<^verbatim>\<open>get dt()\<close> of \<open>Event\<close>: a view of the whole record; it has no failing branch.\<close>

definition Event_dt :: "Event \<Rightarrow> error + DataView" where
  "Event_dt e = Inr \<lparr>byteOffset = 0, byteLength = SizeOfSdlEvent\<rparr>"

text \<open>
  \<open>toObject\<close> of \<open>EventUnion\<close>.  The branch taken evaluates one getter, which evaluates
  \<^verbatim>\<open>this.dt\<close> (abstract in \<open>EventUnion\<close>: \<open>view\<close> is its outcome) and hands the bytes
  to the reader.
\<close>

definition EventUnion_toObject ::
  "EventType \<Rightarrow> (projection \<Rightarrow> bytes \<Rightarrow> 'obj) \<Rightarrow> (error + DataView) \<Rightarrow> bytes \<Rightarrow> u32 \<Rightarrow> error + 'obj" where
  "EventUnion_toObject ET rd view mem t =
     (case view of
        Inl err \<Rightarrow> Inl err
      | Inr v \<Rightarrow> Inr (rd (toObject_select ET t) (DataView_bytes v mem)))"

definition Event_toObject :: "EventType \<Rightarrow> (projection \<Rightarrow> bytes \<Rightarrow> 'obj) \<Rightarrow> Event \<Rightarrow> error + 'obj" where
  "Event_toObject ET rd e = EventUnion_toObject ET rd (Event_dt e) (buffer e) (type e)"

text \<open>What a projection of an \<open>Event\<close> reads: the first \<open>SizeOfSdlEvent\<close> bytes of its record.\<close>

definition Event_view :: "Event \<Rightarrow> bytes" where
  "Event_view e = take SizeOfSdlEvent (buffer e)"

subsection \<open>Native calls\<close>

text \<open>
  \<^verbatim>\<open>SDL.pollEvent\<close>, \<^verbatim>\<open>SDL.waitEvent\<close>, \<^verbatim>\<open>SDL.waitEventTimeout\<close> and
  \<^verbatim>\<open>SDL.pushEvent\<close> enter the native library with \<^verbatim>\<open>this.pointer\<close>.  A native call
  is a parameter: from the state \<open>'n\<close> of everything outside the object and the memory
  at the pointer it gives the boolean it returns, the new outside state and the memory
  as it leaves it.
\<close>

type_synonym 'n native_call = "'n \<Rightarrow> bytes \<Rightarrow> bool \<times> 'n \<times> bytes"

text \<open>
  \<^verbatim>\<open>view.getUint32(0)\<close> of an \<open>UnsafePointerView\<close> reads four bytes in the byte order of
  the machine, taken to be little-endian.
\<close>

definition getUint32 :: "bytes \<Rightarrow> nat \<Rightarrow> u32" where
  "getUint32 mem off = foldr (\<lambda>b acc. ucast b + 256 * acc) (take 4 (drop off mem)) 0"

text \<open>The private method \<^verbatim>\<open>readType_\<close>.\<close>

definition Event_readType :: "Event \<Rightarrow> Event" where
  "Event_readType e = e\<lparr>type := getUint32 (buffer e) 0\<rparr>"

text \<open>
  \<^verbatim>\<open>return SDL.pollEvent(this.pointer) && this.readType_();\<close>  The right operand runs
  only when the native call returned true, and is itself true.
\<close>

definition Event_poll :: "'n native_call \<Rightarrow> 'n \<Rightarrow> Event \<Rightarrow> bool \<times> 'n \<times> Event" where
  "Event_poll pollEvent n e =
     (case pollEvent n (buffer e) of
        (r, n', mem') \<Rightarrow>
          (if r then (True, n', Event_readType (e\<lparr>buffer := mem'\<rparr>))
           else (False, n', e\<lparr>buffer := mem'\<rparr>)))"

definition Event_wait :: "'n native_call \<Rightarrow> 'n \<Rightarrow> Event \<Rightarrow> bool \<times> 'n \<times> Event" where
  "Event_wait waitEvent n e =
     (case waitEvent n (buffer e) of
        (r, n', mem') \<Rightarrow>
          (if r then (True, n', Event_readType (e\<lparr>buffer := mem'\<rparr>))
           else (False, n', e\<lparr>buffer := mem'\<rparr>)))"

definition Event_waitTimeout ::
  "(int \<Rightarrow> 'n native_call) \<Rightarrow> int \<Rightarrow> 'n \<Rightarrow> Event \<Rightarrow> bool \<times> 'n \<times> Event" where
  "Event_waitTimeout waitEventTimeout timeoutMS n e =
     (case waitEventTimeout timeoutMS n (buffer e) of
        (r, n', mem') \<Rightarrow>
          (if r then (True, n', Event_readType (e\<lparr>buffer := mem'\<rparr>))
           else (False, n', e\<lparr>buffer := mem'\<rparr>)))"

text \<open>\<^verbatim>\<open>push(): boolean { return SDL.pushEvent(this.pointer); }\<close>\<close>

definition Event_push :: "'n native_call \<Rightarrow> 'n \<Rightarrow> Event \<Rightarrow> bool \<times> 'n \<times> Event" where
  "Event_push pushEvent n e =
     (case pushEvent n (buffer e) of (r, n', mem') \<Rightarrow> (r, n', e\<lparr>buffer := mem'\<rparr>))"

text \<open>
  Modelled from the spec: the native function behind \<^verbatim>\<open>SDL.pollEvent\<close>, which is not
  part of the sources.  The spec says that polling "removes and loads the next queued
  event into the backing buffer if any exist" and "returns whether one was retrieved";
  the native queue is the list of the records waiting in it, oldest first.
\<close>

definition SDL_pollEvent :: "(bytes list) native_call" where
  "SDL_pollEvent q mem =
     (case q of
        [] \<Rightarrow> (False, q, mem)
      | r # rs \<Rightarrow> (True, rs, r @ drop (length r) mem))"

subsection \<open>Object literals and \<open>pushQuit\<close>\<close>

text \<open>
  An object is a map from property names to values.  The literal
  \<^verbatim>\<open>{ type: EventType.QUIT, reserved: 0, timestamp: 0n, ...e }\<close> sets the three
  properties and then copies every own property of \<open>e\<close> over them.
\<close>

datatype jsval = Number int | BigInt int

type_synonym obj = "string \<rightharpoonup> jsval"

definition pushQuit_literal :: "EventType \<Rightarrow> obj \<Rightarrow> obj" where
  "pushQuit_literal ET e =
     ((((Map.empty(''type'' \<mapsto> Number (uint (ET ''QUIT''))))
          (''reserved'' \<mapsto> Number 0))
          (''timestamp'' \<mapsto> BigInt 0)) ++ e)"

text \<open>
  \<^verbatim>\<open>pushQuit(e) { _.write_QuitEvent({...}, this.dt); this.push(); }\<close> inherited by
  \<open>Event\<close>.  The writer \<^verbatim>\<open>write_QuitEvent\<close> of \<^verbatim>\<open>gen/structs/SDL_events.ts\<close> is the
  parameter \<open>write_QuitEvent\<close>: from the object and the old bytes of the view to the new
  ones.  The boolean of \<open>push\<close> is dropped.
\<close>

definition Event_pushQuit ::
  "EventType \<Rightarrow> (obj \<Rightarrow> bytes \<Rightarrow> bytes) \<Rightarrow> 'n native_call \<Rightarrow> obj \<Rightarrow> 'n \<Rightarrow> Event
     \<Rightarrow> (error + unit) \<times> 'n \<times> Event" where
  "Event_pushQuit ET write_QuitEvent pushEvent e n ev =
     (case Event_dt ev of
        Inl err \<Rightarrow> (Inl err, n, ev)
      | Inr v \<Rightarrow>
          (case Event_push pushEvent n
                  (ev\<lparr>buffer := DataView_modify v (write_QuitEvent (pushQuit_literal ET e)) (buffer ev)\<rparr>) of
             (r, n', ev') \<Rightarrow> (Inr (), n', ev')))"

subsection \<open>The generator \<open>iter\<close>\<close>

text \<open>
  What surrounds the generator: the native poll, the consumer (the body of the
  \<^verbatim>\<open>for await\<close> loop, which runs while the generator is suspended at \<^verbatim>\<open>yield\<close> and may
  change the object and the outside state), the optional \<open>onIdle\<close>, the clock
  \<^verbatim>\<open>Date.now()\<close>, and what happens outside while the timer of \<^verbatim>\<open>setTimeout\<close> runs.
\<close>

record 'n iter_env =
  env_pollEvent :: "'n native_call"
  env_consumer :: "'n \<Rightarrow> Event \<Rightarrow> 'n \<times> Event"
  env_onIdle :: "('n \<Rightarrow> 'n) option"
  env_now :: "'n \<Rightarrow> real"
  env_sleep :: "real \<Rightarrow> 'n \<Rightarrow> 'n"

text \<open>What an observer sees of a run, in order.\<close>

datatype iter_step = Yield Event | Idle | Sleep real | Return

text \<open>
  Both \<^verbatim>\<open>while\<close> loops come back to \<^verbatim>\<open>this.poll()\<close>: after a yield that was not a quit,
  and after the timer fired.  \<open>iter_loop\<close> is the run from one evaluation of
  \<^verbatim>\<open>this.poll()\<close> on; the fuel bounds the number of polls, and a run that uses it up ends
  without \<open>Return\<close>.
\<close>

fun iter_loop ::
  "EventType \<Rightarrow> 'n iter_env \<Rightarrow> real \<Rightarrow> nat \<Rightarrow> real \<Rightarrow> 'n \<Rightarrow> Event \<Rightarrow> iter_step list" where
  "iter_loop ET env interval 0 nextFrame n e = []"
| "iter_loop ET env interval (Suc fuel) nextFrame n e =
     (case Event_poll (env_pollEvent env) n e of
        (True, n1, e1) \<Rightarrow>
          (let quit = (type e1 = ET ''QUIT'') in
           case env_consumer env n1 e1 of
             (n2, e2) \<Rightarrow>
               (if quit then [Yield e1, Return]
                else Yield e1 # iter_loop ET env interval fuel nextFrame n2 e2))
      | (False, n1, e1) \<Rightarrow>
          (case env_onIdle env of
             Some f \<Rightarrow>
               (let n2 = f n1;
                    now = env_now env n2;
                    remaining = nextFrame - now
                in Idle # Sleep (if remaining > 0 then remaining else 0)
                   # iter_loop ET env interval fuel (nextFrame + interval)
                       (env_sleep env (if remaining > 0 then remaining else 0) n2) e1)
           | None \<Rightarrow>
               (let now = env_now env n1;
                    remaining = nextFrame - now
                in Sleep (if remaining > 0 then remaining else 0)
                   # iter_loop ET env interval fuel (nextFrame + interval)
                       (env_sleep env (if remaining > 0 then remaining else 0) n1) e1)))"

definition Event_iter ::
  "EventType \<Rightarrow> 'n iter_env \<Rightarrow> real \<Rightarrow> nat \<Rightarrow> 'n \<Rightarrow> Event \<Rightarrow> iter_step list" where
  "Event_iter ET env interval fuel n e =
     iter_loop ET env interval fuel (env_now env n + interval) n e"

section \<open>Class \<open>EventArray\<close>: a batch of records\<close>

subsection \<open>Numbers\<close>

text \<open>
  The capacity, the cursor and the index of \<open>get\<close> have the type \<^verbatim>\<open>number\<close>, and nothing
  in the class checks that they are integers.  A number is a real or \<^verbatim>\<open>NaN\<close>.  The
  rounding of doubles is not modelled (multiplying by 128 and adding 1 to an integer
  cursor are exact), and the two infinities are left out: as a capacity they make the
  constructor throw.
\<close>

datatype number = Num real | NaN

text \<open>The comparisons \<^verbatim>\<open>>=\<close>, \<^verbatim>\<open><\<close> and \<^verbatim>\<open>===\<close>: false as soon as one side is \<^verbatim>\<open>NaN\<close>.\<close>

fun js_ge :: "number \<Rightarrow> number \<Rightarrow> bool" where
  "js_ge (Num x) (Num y) = (x \<ge> y)"
| "js_ge x y = False"

fun js_lt :: "number \<Rightarrow> number \<Rightarrow> bool" where
  "js_lt (Num x) (Num y) = (x < y)"
| "js_lt x y = False"

fun js_eq :: "number \<Rightarrow> number \<Rightarrow> bool" where
  "js_eq (Num x) (Num y) = (x = y)"
| "js_eq x y = False"

fun js_times :: "number \<Rightarrow> number \<Rightarrow> number" where
  "js_times (Num x) (Num y) = Num (x * y)"
| "js_times x y = NaN"

fun js_plus :: "number \<Rightarrow> number \<Rightarrow> number" where
  "js_plus (Num x) (Num y) = Num (x + y)"
| "js_plus x y = NaN"


text \<open>
  \<open>ToIndex\<close>, which the constructors of typed arrays and of \<open>DataView\<close> apply to a
  length or an offset: \<^verbatim>\<open>NaN\<close> becomes 0, a fraction is cut off towards zero, and a
  negative result is a \<open>RangeError\<close>.  Its upper limit lies beyond every buffer that can
  be allocated and is left out.
\<close>

definition ToIndex :: "number \<Rightarrow> error + nat" where
  "ToIndex x =
     (case x of
        NaN \<Rightarrow> Inr 0
      | Num r \<Rightarrow>
          (let i = (if r \<ge> 0 then \<lfloor>r\<rfloor> else \<lceil>r\<rceil>)
           in if i < 0 then Inl RangeError else Inr (nat i)))"


text \<open>\<^verbatim>\<open>new DataView(buffer, byteOffset, byteLength)\<close> checks the window against the buffer.\<close>

definition DataView_new :: "bytes \<Rightarrow> number \<Rightarrow> nat \<Rightarrow> error + DataView" where
  "DataView_new mem off len =
     (case ToIndex off of
        Inl err \<Rightarrow> Inl err
      | Inr k \<Rightarrow>
          (if k > length mem \<or> k + len > length mem then Inl RangeError
           else Inr \<lparr>byteOffset = k, byteLength = len\<rparr>))"

subsection \<open>The class\<close>

record EventArray =
  buf :: bytes
  numEvents :: number
  maxEvents :: number


text \<open>
  Every method returns its outcome together with the object as it leaves it, so that
  the state after a throw is part of the result.
\<close>

definition EventArray_push :: "EventArray \<Rightarrow> (error + unit) \<times> EventArray" where
  "EventArray_push a =
     (if js_ge (numEvents a) (maxEvents a) then (Inl (Error ''PeepEvents buffer full''), a)
      else (Inr (), a\<lparr>numEvents := js_plus (numEvents a) (Num 1)\<rparr>))"

definition EventArray_dt :: "EventArray \<Rightarrow> error + DataView" where
  "EventArray_dt a =
     (if js_ge (numEvents a) (maxEvents a) then Inl (Error ''PeepEvents buffer full'')
      else DataView_new (buf a) (js_times (numEvents a) (Num (real SizeOfSdlEvent))) SizeOfSdlEvent)"

text \<open>
  Every \<open>push\<close> variant of \<open>EventUnion\<close> has the body
  \<^verbatim>\<open>_.write_X({...}, this.dt); this.push();\<close>.  On an \<open>EventArray\<close>, with \<open>wr\<close> the
  writer applied to its literal:
\<close>

definition EventArray_write_push :: "(bytes \<Rightarrow> bytes) \<Rightarrow> EventArray \<Rightarrow> (error + unit) \<times> EventArray" where
  "EventArray_write_push wr a =
     (case EventArray_dt a of
        Inl err \<Rightarrow> (Inl err, a)
      | Inr v \<Rightarrow> EventArray_push (a\<lparr>buf := DataView_modify v wr (buf a)\<rparr>))"

definition EventArray_pushQuit ::
  "EventType \<Rightarrow> (obj \<Rightarrow> bytes \<Rightarrow> bytes) \<Rightarrow> obj \<Rightarrow> EventArray \<Rightarrow> (error + unit) \<times> EventArray" where
  "EventArray_pushQuit ET write_QuitEvent e a =
     EventArray_write_push (write_QuitEvent (pushQuit_literal ET e)) a"

text \<open>
  A callback receives the object itself and may do anything with it; \<open>'w\<close> is the state
  of whatever else it touches.  It ends normally (\<open>None\<close>) or throws.
\<close>

type_synonym 'w callback = "'w \<Rightarrow> EventArray \<Rightarrow> error option \<times> 'w \<times> EventArray"

definition EventArray_get ::
  "number \<Rightarrow> 'w callback \<Rightarrow> 'w \<Rightarrow> EventArray \<Rightarrow> (error + unit) \<times> 'w \<times> EventArray" where
  "EventArray_get index f w a =
     (if js_ge index (numEvents a) then (Inl (Error ''PeepEvents index out of range''), w, a)
      else
        (let t = numEvents a in
         case f w (a\<lparr>numEvents := index\<rparr>) of
           (None, w', a') \<Rightarrow> (Inr (), w', a'\<lparr>numEvents := t\<rparr>)
         | (Some err, w', a') \<Rightarrow> (Inl err, w', a'\<lparr>numEvents := t\<rparr>)))"

text \<open>
  The callback of \<open>fold\<close> also gets the index and answers whether to go on.  The loop
  variable \<open>i\<close> starts at 0 and is incremented, so it is a natural number; \<open>n\<close> is the
  cursor saved on entry.
\<close>

type_synonym 'w fold_callback = "'w \<Rightarrow> EventArray \<Rightarrow> nat \<Rightarrow> (error + bool) \<times> 'w \<times> EventArray"

function fold_loop ::
  "'w fold_callback \<Rightarrow> number \<Rightarrow> nat \<Rightarrow> 'w \<Rightarrow> EventArray \<Rightarrow> (error + unit) \<times> 'w \<times> EventArray" where
  "fold_loop f n i w a =
     (if js_lt (Num (real i)) n then
        (case f w (a\<lparr>numEvents := Num (real i)\<rparr>) i of
           (Inl err, w', a') \<Rightarrow> (Inl err, w', a')
         | (Inr go_on, w', a') \<Rightarrow>
             (if \<not> go_on then (Inr (), w', a') else fold_loop f n (i + 1) w' a'))
      else (Inr (), w, a))"
  by pat_completeness auto
termination
proof (relation "measure (\<lambda>(f, n, i, w, a). case n of Num r \<Rightarrow> nat \<lceil>r\<rceil> - i | NaN \<Rightarrow> 0)")
  show "wf (measure (\<lambda>(f, n, i, w, a). case n of Num r \<Rightarrow> nat \<lceil>r\<rceil> - i | NaN \<Rightarrow> 0))"
    by simp
next
  fix f :: "'w fold_callback" and n i and w xa :: 'w and a ya :: EventArray
  assume lt: "js_lt (Num (real i)) n"
  then obtain r where n: "n = Num r" and r: "real i < r"
    by (cases n) auto
  from r have "int i < \<lceil>r\<rceil>"
    by linarith
  then have "nat \<lceil>r\<rceil> - (i + 1) < nat \<lceil>r\<rceil> - i"
    by linarith
  with n show "((f, n, i + 1, xa, ya), (f, n, i, w, a))
      \<in> measure (\<lambda>(f, n, i, w, a). case n of Num r \<Rightarrow> nat \<lceil>r\<rceil> - i | NaN \<Rightarrow> 0)"
    by simp
qed

definition EventArray_fold ::
  "'w fold_callback \<Rightarrow> 'w \<Rightarrow> EventArray \<Rightarrow> (error + unit) \<times> 'w \<times> EventArray" where
  "EventArray_fold f w a =
     (let n = numEvents a in
      case fold_loop f n 0 w a of (r, w', a') \<Rightarrow> (r, w', a'\<lparr>numEvents := n\<rparr>))"

subsection \<open>Sequences of operations\<close>








section \<open>Sample inputs\<close>

text \<open>
  Concrete records, surroundings and callbacks on which the definitions are evaluated.
  \<open>sample_record b0 b1\<close> is a record of 128 bytes whose tag is \<open>b0 + 256 * b1\<close>.
\<close>

definition sample_record :: "u8 \<Rightarrow> u8 \<Rightarrow> bytes" where
  "sample_record b0 b1 = [b0, b1, 0, 0] @ replicate 124 0"

text \<open>
  Surroundings of \<open>iter\<close>: the native queue is a list of records, the consumer leaves
  everything as it is, the clock stands at 0, and while the timer runs a quit record and
  a key-down record arrive.
\<close>

definition sample_env :: "(bytes list) iter_env" where
  "sample_env =
     \<lparr>env_pollEvent = SDL_pollEvent,
      env_consumer = (\<lambda>q e. (q, e)),
      env_onIdle = Some (\<lambda>q. q),
      env_now = (\<lambda>q. 0),
      env_sleep = (\<lambda>d q. q @ [sample_record 0 1, sample_record 0 3])\<rparr>"

text \<open>A writer that stores the low two bytes of the \<open>type\<close> property at the start of the view.\<close>

definition sample_write_QuitEvent :: "obj \<Rightarrow> bytes \<Rightarrow> bytes" where
  "sample_write_QuitEvent lit old =
     (case lit ''type'' of
        Some (Number t) \<Rightarrow> [word_of_int t, word_of_int (t div 256)] @ drop 2 old
      | _ \<Rightarrow> old)"

text \<open>A native push that appends the record to the queue.\<close>

definition sample_pushEvent :: "(bytes list) native_call" where
  "sample_pushEvent q mem = (True, q @ [mem], mem)"

text \<open>
  Callbacks: one that moves the cursor and throws, one that calls \<open>push\<close> on the object
  it is given and counts its successful calls, and a \<open>fold\<close> callback that counts and
  goes on.
\<close>

definition sample_throwing :: "nat callback" where
  "sample_throwing w a = (Some (Error ''stop''), Suc w, a\<lparr>numEvents := Num 7\<rparr>)"

definition sample_pushing :: "nat callback" where
  "sample_pushing w a =
     (case EventArray_push a of
        (Inl err, a') \<Rightarrow> (Some err, w, a')
      | (Inr u, a') \<Rightarrow> (None, Suc w, a'))"

definition sample_counting :: "nat fold_callback" where
  "sample_counting w a i = (Inr True, Suc w, a)"

section \<open>Dispatch by tag\<close>

lemma switch_first_None:
  "switch_first ET t cs = None \<longleftrightarrow> t \<notin> ET ` fst ` set cs"
  by (induction cs) (auto split: if_splits)

lemma switch_first_Some:
  "switch_first ET t cs = Some p \<Longrightarrow> \<exists>name. (name, p) \<in> set cs \<and> ET name = t"
  by (induction cs) (auto split: if_splits)

lemma Event_toObject_eq:
  "Event_toObject ET rd e = Inr (rd (toObject_select ET (type e)) (Event_view e))"
  by (simp add: Event_toObject_def EventUnion_toObject_def Event_dt_def DataView_bytes_def
      Event_view_def)

text \<open>
  The only failing path of the inherited \<open>toObject\<close> is the \<open>dt\<close> getter of the receiver:
  when it throws, so does \<open>toObject\<close>.  The getter of \<open>Event\<close> never does; the getter of
  \<open>EventArray\<close> does when the batch is full.
\<close>

lemma EventUnion_toObject_dt_throws:
  "EventUnion_toObject ET rd (Inl err) mem t = Inl err"
  by (simp add: EventUnion_toObject_def)

lemma switch_first_map_of:
  "switch_first ET t cs = map_of (map (\<lambda>(name, p). (ET name, p)) cs) t"
  by (induction cs) auto

lemma sample_labels: "map (\<lambda>(name, p). (sample_EventType name, p)) toObject_cases = [
     (0x100, get_quit), (0x151, get_display), (0x152, get_display), (0x153, get_display),
     (0x154, get_display), (0x155, get_display), (0x156, get_display), (0x157, get_display),
     (0x158, get_display), (0x202, get_window), (0x203, get_window), (0x204, get_window),
     (0x205, get_window), (0x206, get_window), (0x207, get_window), (0x208, get_window),
     (0x209, get_window), (0x20A, get_window), (0x20B, get_window), (0x20C, get_window),
     (0x20D, get_window), (0x20E, get_window), (0x20F, get_window), (0x210, get_window),
     (0x211, get_window), (0x212, get_window), (0x213, get_window), (0x214, get_window),
     (0x215, get_window), (0x216, get_window), (0x217, get_window), (0x218, get_window),
     (0x219, get_window), (0x21A, get_window), (0x300, get_keyboard), (0x301, get_keyboard),
     (0x302, get_textEditing), (0x303, get_textInput), (0x305, get_keyboardDevice), (0x306, get_keyboardDevice),
     (0x307, get_textEditingCandidates), (0x400, get_mouseMotion), (0x401, get_mouseButton), (0x402, get_mouseButton),
     (0x403, get_mouseWheel), (0x404, get_mouseDevice), (0x405, get_mouseDevice), (0x600, get_joyAxis),
     (0x601, get_joyBall), (0x602, get_joyHat), (0x603, get_joyButton), (0x604, get_joyButton),
     (0x605, get_joyDevice), (0x606, get_joyDevice), (0x607, get_joyBattery), (0x608, get_joyDevice),
     (0x650, get_gamepadAxis), (0x651, get_gamepadButton), (0x652, get_gamepadButton), (0x653, get_gamepadDevice),
     (0x654, get_gamepadDevice), (0x655, get_gamepadDevice), (0x656, get_gamepadTouchpad), (0x657, get_gamepadTouchpad),
     (0x658, get_gamepadTouchpad), (0x659, get_gamepadSensor), (0x65A, get_gamepadDevice), (0x65B, get_gamepadDevice),
     (0x700, get_touchFinger), (0x701, get_touchFinger), (0x702, get_touchFinger), (0x703, get_touchFinger),
     (0x710, get_pinchFinger), (0x711, get_pinchFinger), (0x712, get_pinchFinger), (0x900, get_clipboard),
     (0x1000, get_drop), (0x1001, get_drop), (0x1002, get_drop), (0x1003, get_drop),
     (0x1004, get_drop), (0x1100, get_audioDevice), (0x1101, get_audioDevice), (0x1102, get_audioDevice),
     (0x1200, get_sensor), (0x1300, get_penProximity), (0x1301, get_penProximity), (0x1302, get_penTouch),
     (0x1303, get_penTouch), (0x1304, get_penButton), (0x1305, get_penButton), (0x1306, get_penMotion),
     (0x1307, get_penAxis), (0x1400, get_cameraDevice), (0x1401, get_cameraDevice), (0x1402, get_cameraDevice),
     (0x1403, get_cameraDevice), (0x2000, get_render), (0x2001, get_render), (0x2002, get_render),
     (0x8000, get_user)]"
  by code_simp

lemma sample_USER: "sample_EventType ''USER'' = 0x8000"
  by code_simp

lemma sample_LAST: "sample_EventType ''LAST'' = 0xFFFF"
  by code_simp

lemma sample_QUIT: "sample_EventType ''QUIT'' = 0x100"
  by code_simp

lemma sample_is_label:
  "t \<in> sample_EventType ` fst ` set toObject_cases \<longleftrightarrow>
     map_of (map (\<lambda>(name, p). (sample_EventType name, p)) toObject_cases) t \<noteq> None"
  using switch_first_None [of sample_EventType t toObject_cases]
  by (simp add: switch_first_map_of)

text \<open>
  Claim C1.  For every 32-bit tag cached in an \<open>Event\<close>, \<open>toObject\<close> returns a value and
  does not throw.  When the tag equals one of the case labels, the value is the
  projection of a branch carrying that label; when the tag is no label and lies outside
  the range from \<open>USER\<close> to \<open>LAST\<close>, the value is the common-header projection.
\<close>

theorem toObject_total:
  "(\<exists>p. Event_toObject ET rd e = Inr (rd p (Event_view e)))
   \<and> (type e \<in> ET ` fst ` set toObject_cases \<longrightarrow>
        (\<exists>name p. (name, p) \<in> set toObject_cases \<and> ET name = type e
           \<and> Event_toObject ET rd e = Inr (rd p (Event_view e))))
   \<and> (type e \<notin> ET ` fst ` set toObject_cases
        \<and> \<not> (ET ''USER'' \<le> type e \<and> type e \<le> ET ''LAST'') \<longrightarrow>
        Event_toObject ET rd e = Inr (rd get_common (Event_view e)))"
proof (intro conjI impI)
  show "\<exists>p. Event_toObject ET rd e = Inr (rd p (Event_view e))"
    unfolding Event_toObject_eq by blast
next
  assume "type e \<in> ET ` fst ` set toObject_cases"
  then have "switch_first ET (type e) toObject_cases \<noteq> None"
    by (simp add: switch_first_None)
  then obtain p where p: "switch_first ET (type e) toObject_cases = Some p"
    by blast
  from switch_first_Some [OF p] obtain name where
    "(name, p) \<in> set toObject_cases" "ET name = type e"
    by blast
  moreover have "toObject_select ET (type e) = p"
    by (simp add: toObject_select_def p)
  ultimately show "\<exists>name p. (name, p) \<in> set toObject_cases \<and> ET name = type e
      \<and> Event_toObject ET rd e = Inr (rd p (Event_view e))"
    unfolding Event_toObject_eq by blast
next
  assume a: "type e \<notin> ET ` fst ` set toObject_cases
      \<and> \<not> (ET ''USER'' \<le> type e \<and> type e \<le> ET ''LAST'')"
  then have "switch_first ET (type e) toObject_cases = None"
    by (simp add: switch_first_None)
  with a have "toObject_select ET (type e) = get_common"
    by (simp add: toObject_select_def)
  then show "Event_toObject ET rd e = Inr (rd get_common (Event_view e))"
    unfolding Event_toObject_eq by simp
qed

theorem toObject_total_witness:
  "(0x100 \<in> sample_EventType ` fst ` set toObject_cases
    \<and> (\<exists>name p. (name, p) \<in> set toObject_cases \<and> sample_EventType name = 0x100
         \<and> Event_toObject sample_EventType (\<lambda>p bs. p) (Event_new\<lparr>type := 0x100\<rparr>) = Inr p))
   \<and> (0x101 \<notin> sample_EventType ` fst ` set toObject_cases
    \<and> \<not> (sample_EventType ''USER'' \<le> 0x101 \<and> 0x101 \<le> sample_EventType ''LAST'')
    \<and> Event_toObject sample_EventType (\<lambda>p bs. p) (Event_new\<lparr>type := 0x101\<rparr>) = Inr get_common)"
proof -
  have h1: "(0x100 :: u32) \<in> sample_EventType ` fst ` set toObject_cases"
    unfolding sample_is_label sample_labels by simp
  have h2: "(0x101 :: u32) \<notin> sample_EventType ` fst ` set toObject_cases"
    unfolding sample_is_label sample_labels by simp
  have h3: "\<not> (sample_EventType ''USER'' \<le> 0x101 \<and> 0x101 \<le> sample_EventType ''LAST'')"
    by (simp add: sample_USER)
  note t1 = toObject_total [of sample_EventType "\<lambda>p bs. p" "Event_new\<lparr>type := 0x100\<rparr>"]
  note t2 = toObject_total [of sample_EventType "\<lambda>p bs. p" "Event_new\<lparr>type := 0x101\<rparr>"]
  from t1 h1 have c1: "\<exists>name p. (name, p) \<in> set toObject_cases \<and> sample_EventType name = 0x100
         \<and> Event_toObject sample_EventType (\<lambda>p bs. p) (Event_new\<lparr>type := 0x100\<rparr>) = Inr p"
    by simp
  from t2 h2 h3 have c2:
    "Event_toObject sample_EventType (\<lambda>p bs. p) (Event_new\<lparr>type := 0x101\<rparr>) = Inr get_common"
    by simp
  from h1 h2 h3 c1 c2 show ?thesis by blast
qed

text \<open>
  Claim C2.  A tag that is no case label and lies between \<open>USER\<close> and \<open>LAST\<close>
  (both included) is resolved by the default branch to the \<open>user\<close> projection, not to the
  common header.
\<close>

theorem toObject_user_range:
  assumes "type e \<notin> ET ` fst ` set toObject_cases"
    and "ET ''USER'' \<le> type e" and "type e \<le> ET ''LAST''"
  shows "Event_toObject ET rd e = Inr (rd get_user (Event_view e))"
proof -
  from assms(1) have "switch_first ET (type e) toObject_cases = None"
    by (simp add: switch_first_None)
  with assms(2,3) have "toObject_select ET (type e) = get_user"
    by (simp add: toObject_select_def)
  then show ?thesis
    by (simp add: Event_toObject_eq)
qed

theorem toObject_user_range_witness:
  "0x9000 \<notin> sample_EventType ` fst ` set toObject_cases
   \<and> sample_EventType ''USER'' \<le> 0x9000 \<and> 0x9000 \<le> sample_EventType ''LAST''
   \<and> Event_toObject sample_EventType (\<lambda>p bs. (p, take 4 bs)) (Event_new\<lparr>type := 0x9000\<rparr>)
       = Inr (get_user, [0, 0, 0, 0])"
proof -
  have h1: "type (Event_new\<lparr>type := 0x9000\<rparr>) \<notin> sample_EventType ` fst ` set toObject_cases"
    unfolding sample_is_label sample_labels by simp
  have h2: "sample_EventType ''USER'' \<le> type (Event_new\<lparr>type := 0x9000\<rparr>)"
    by (simp add: sample_USER)
  have h3: "type (Event_new\<lparr>type := 0x9000\<rparr>) \<le> sample_EventType ''LAST''"
    by (simp add: sample_LAST)
  have v: "take 4 (Event_view (Event_new\<lparr>type := 0x9000\<rparr>)) = [0, 0, 0, 0]"
    by code_simp
  from toObject_user_range [OF h1 h2 h3, of "\<lambda>p bs. (p, take 4 bs)"] v h1 h2 h3
  show ?thesis by simp
qed

section \<open>Polling\<close>

text \<open>
  Claim C9.  When \<open>poll\<close>, \<open>wait\<close> or \<open>waitTimeout\<close> returns false, the cached tag of the
  \<open>Event\<close> is the one it had before the call, whatever the native call did to the outside
  state and to the buffer.
\<close>

theorem failed_poll_keeps_type:
  "(Event_poll pollEvent n e = (False, n', e') \<longrightarrow> type e' = type e)
   \<and> (Event_wait waitEvent n e = (False, n', e') \<longrightarrow> type e' = type e)
   \<and> (Event_waitTimeout waitEventTimeout timeoutMS n e = (False, n', e') \<longrightarrow> type e' = type e)"
  by (auto simp: Event_poll_def Event_wait_def Event_waitTimeout_def
      split: prod.splits if_splits)

theorem failed_poll_keeps_type_witness:
  "Event_poll (\<lambda>n mem. (False, Suc n, replicate 128 7)) 0 (Event_new\<lparr>type := 0x300\<rparr>)
     = (False, 1, \<lparr>buffer = replicate 128 7, type = 0x300\<rparr>)
   \<and> Event_wait (\<lambda>n mem. (False, Suc n, replicate 128 7)) 0 (Event_new\<lparr>type := 0x300\<rparr>)
     = (False, 1, \<lparr>buffer = replicate 128 7, type = 0x300\<rparr>)
   \<and> Event_waitTimeout (\<lambda>ms n mem. (False, n + nat ms, replicate 128 7)) 16 0 (Event_new\<lparr>type := 0x300\<rparr>)
     = (False, 16, \<lparr>buffer = replicate 128 7, type = 0x300\<rparr>)
   \<and> type \<lparr>buffer = replicate 128 7, type = 0x300\<rparr> = type (Event_new\<lparr>type := 0x300\<rparr>)"
proof -
  let ?e = "Event_new\<lparr>type := 0x300\<rparr>"
  let ?e' = "\<lparr>buffer = replicate 128 7, type = 0x300\<rparr>"
  let ?P = "\<lambda>(n::nat) (mem::bytes). (False, Suc n, replicate 128 (7::u8))"
  let ?T = "\<lambda>ms (n::nat) (mem::bytes). (False, n + nat ms, replicate 128 (7::u8))"
  have p: "Event_poll ?P 0 ?e = (False, 1, ?e')"
    by (simp add: Event_poll_def Event_new_def)
  have w: "Event_wait ?P 0 ?e = (False, 1, ?e')"
    by (simp add: Event_wait_def Event_new_def)
  have t: "Event_waitTimeout ?T 16 0 ?e = (False, 16, ?e')"
    by (simp add: Event_waitTimeout_def Event_new_def)
  have "Event_poll ?P 0 ?e = (False, 1, ?e') \<longrightarrow> type ?e' = type ?e"
    using failed_poll_keeps_type [of ?P 0 ?e 1 ?e'] by (rule conjunct1)
  from this p have "type ?e' = type ?e" by (rule mp)
  with p w t show ?thesis by blast
qed

text \<open>
  Claim C8.  On an empty native queue \<open>poll\<close> returns false and changes neither the
  queue nor the object; there is no throwing branch.  When a record waits in the queue,
  \<open>poll\<close> returns true, the queue has lost its first record, the buffer starts with
  that record, and the cached tag is the one read from the buffer.
\<close>

theorem poll_empty_or_dequeue:
  "Event_poll SDL_pollEvent [] e = (False, [], e)
   \<and> Event_poll SDL_pollEvent (r # rs) e
       = (True, rs, \<lparr>buffer = r @ drop (length r) (buffer e),
                      type = getUint32 (r @ drop (length r) (buffer e)) 0\<rparr>)
   \<and> take (length r) (buffer (snd (snd (Event_poll SDL_pollEvent (r # rs) e)))) = r"
  by (simp add: Event_poll_def SDL_pollEvent_def Event_readType_def)

section \<open>The batch\<close>

text \<open>
  Claim C4.  On a batch whose cursor equals its capacity, \<open>push\<close> and every variant that
  writes through the batch throw, and the object they leave is the one they found: same
  cursor, same bytes.
\<close>

theorem full_push_throws:
  "js_eq (numEvents a) (maxEvents a) \<Longrightarrow>
     EventArray_push a = (Inl (Error ''PeepEvents buffer full''), a)
     \<and> EventArray_write_push wr a = (Inl (Error ''PeepEvents buffer full''), a)
     \<and> EventArray_pushQuit ET write_QuitEvent e a = (Inl (Error ''PeepEvents buffer full''), a)"
proof -
  assume "js_eq (numEvents a) (maxEvents a)"
  then have "js_ge (numEvents a) (maxEvents a)"
    by (cases "numEvents a"; cases "maxEvents a") simp_all
  then show ?thesis
    by (simp add: EventArray_push_def EventArray_write_push_def EventArray_dt_def
        EventArray_pushQuit_def)
qed

theorem full_push_throws_witness:
  "js_eq (numEvents \<lparr>buf = replicate 128 5, numEvents = Num 1, maxEvents = Num 1\<rparr>)
     (maxEvents \<lparr>buf = replicate 128 5, numEvents = Num 1, maxEvents = Num 1\<rparr>)
   \<and> EventArray_push \<lparr>buf = replicate 128 5, numEvents = Num 1, maxEvents = Num 1\<rparr>
     = (Inl (Error ''PeepEvents buffer full''),
        \<lparr>buf = replicate 128 5, numEvents = Num 1, maxEvents = Num 1\<rparr>)
   \<and> EventArray_write_push (\<lambda>old. replicate 128 9)
        \<lparr>buf = replicate 128 5, numEvents = Num 1, maxEvents = Num 1\<rparr>
     = (Inl (Error ''PeepEvents buffer full''),
        \<lparr>buf = replicate 128 5, numEvents = Num 1, maxEvents = Num 1\<rparr>)
   \<and> EventArray_pushQuit sample_EventType (\<lambda>lit old. replicate 128 9) Map.empty
        \<lparr>buf = replicate 128 5, numEvents = Num 1, maxEvents = Num 1\<rparr>
     = (Inl (Error ''PeepEvents buffer full''),
        \<lparr>buf = replicate 128 5, numEvents = Num 1, maxEvents = Num 1\<rparr>)"
proof -
  let ?a = "\<lparr>buf = replicate 128 (5::u8), numEvents = Num 1, maxEvents = Num 1\<rparr>"
  have h: "js_eq (numEvents ?a) (maxEvents ?a)" by simp
  from full_push_throws [OF h, of "\<lambda>old. replicate 128 9" sample_EventType
      "\<lambda>lit old. replicate 128 9" Map.empty] h
  show ?thesis by (rule_tac conjI)
qed

text \<open>
  Claim C10.  \<open>get\<close> with an index at or beyond the cursor throws the out-of-range
  error; the callback is not run (neither the object nor the callback's own state
  changes, whatever the callback is) and the cursor stays.
\<close>

theorem get_out_of_range:
  "js_ge index (numEvents a) \<Longrightarrow>
     EventArray_get index f w a = (Inl (Error ''PeepEvents index out of range''), w, a)"
  by (simp add: EventArray_get_def)

theorem get_out_of_range_witness:
  "js_ge (Num 2) (numEvents \<lparr>buf = replicate 384 0, numEvents = Num 2, maxEvents = Num 3\<rparr>)
   \<and> EventArray_get (Num 2) (\<lambda>w a. (None, Suc w, a\<lparr>numEvents := Num 0\<rparr>)) (0::nat)
        \<lparr>buf = replicate 384 0, numEvents = Num 2, maxEvents = Num 3\<rparr>
     = (Inl (Error ''PeepEvents index out of range''), 0,
        \<lparr>buf = replicate 384 0, numEvents = Num 2, maxEvents = Num 3\<rparr>)"
proof -
  let ?a = "\<lparr>buf = replicate 384 (0::u8), numEvents = Num 2, maxEvents = Num 3\<rparr>"
  have h: "js_ge (Num 2) (numEvents ?a)" by simp
  from h get_out_of_range [OF h, of "\<lambda>w a. (None, Suc w, a\<lparr>numEvents := Num 0\<rparr>)" "0::nat"]
  show ?thesis by (rule conjI)
qed

text \<open>
  Claim C5.  \<open>get\<close> with an index below the cursor runs the callback on the object with
  the cursor moved to the index and, whether the callback returns or throws (the
  exception then leaves \<open>get\<close>), the cursor is back at its old value afterwards.  \<open>fold\<close>
  leaves the cursor at its old value too.
\<close>

theorem get_fold_restore:
  "(js_lt index (numEvents a) \<longrightarrow>
      numEvents (snd (snd (EventArray_get index f w a))) = numEvents a
      \<and> fst (EventArray_get index f w a)
          = (case fst (f w (a\<lparr>numEvents := index\<rparr>)) of None \<Rightarrow> Inr () | Some err \<Rightarrow> Inl err))
   \<and> numEvents (snd (snd (EventArray_fold g w a))) = numEvents a"
proof (rule conjI)
  show "js_lt index (numEvents a) \<longrightarrow>
      numEvents (snd (snd (EventArray_get index f w a))) = numEvents a
      \<and> fst (EventArray_get index f w a)
          = (case fst (f w (a\<lparr>numEvents := index\<rparr>)) of None \<Rightarrow> Inr () | Some err \<Rightarrow> Inl err)"
  proof (rule impI)
    assume "js_lt index (numEvents a)"
    then have "\<not> js_ge index (numEvents a)"
      by (cases index; cases "numEvents a") simp_all
    then show "numEvents (snd (snd (EventArray_get index f w a))) = numEvents a
        \<and> fst (EventArray_get index f w a)
            = (case fst (f w (a\<lparr>numEvents := index\<rparr>)) of None \<Rightarrow> Inr () | Some err \<Rightarrow> Inl err)"
      by (auto simp: EventArray_get_def Let_def split: prod.splits option.splits)
  qed
next
  show "numEvents (snd (snd (EventArray_fold g w a))) = numEvents a"
    by (simp add: EventArray_fold_def Let_def split: prod.splits)
qed

theorem get_fold_restore_witness:
  "js_lt (Num 0) (numEvents \<lparr>buf = replicate 256 0, numEvents = Num 2, maxEvents = Num 2\<rparr>)
   \<and> EventArray_get (Num 0) sample_throwing 0
        \<lparr>buf = replicate 256 0, numEvents = Num 2, maxEvents = Num 2\<rparr>
       = (Inl (Error ''stop''), 1, \<lparr>buf = replicate 256 0, numEvents = Num 2, maxEvents = Num 2\<rparr>)
   \<and> EventArray_get (Num 0) sample_pushing 0
        \<lparr>buf = replicate 256 0, numEvents = Num 2, maxEvents = Num 2\<rparr>
       = (Inr (), 1, \<lparr>buf = replicate 256 0, numEvents = Num 2, maxEvents = Num 2\<rparr>)
   \<and> EventArray_fold sample_counting 0
        \<lparr>buf = replicate 256 0, numEvents = Num 2, maxEvents = Num 2\<rparr>
       = (Inr (), 2, \<lparr>buf = replicate 256 0, numEvents = Num 2, maxEvents = Num 2\<rparr>)
   \<and> numEvents (snd (snd (EventArray_get (Num 0) sample_throwing 0
          \<lparr>buf = replicate 256 0, numEvents = Num 2, maxEvents = Num 2\<rparr>))) = Num 2
   \<and> numEvents (snd (snd (EventArray_fold sample_counting 0
          \<lparr>buf = replicate 256 0, numEvents = Num 2, maxEvents = Num 2\<rparr>))) = Num 2"
proof -
  let ?a = "\<lparr>buf = replicate 256 (0::u8), numEvents = Num 2, maxEvents = Num 2\<rparr>"
  have h: "js_lt (Num 0) (numEvents ?a)" by simp
  have g1: "EventArray_get (Num 0) sample_throwing 0 ?a = (Inl (Error ''stop''), 1, ?a)"
    by (simp add: EventArray_get_def sample_throwing_def)
  have g2: "EventArray_get (Num 0) sample_pushing 0 ?a = (Inr (), 1, ?a)"
    by (simp add: EventArray_get_def sample_pushing_def EventArray_push_def)
  have f: "EventArray_fold sample_counting 0 ?a = (Inr (), 2, ?a)"
    by (simp add: EventArray_fold_def sample_counting_def Let_def)
  note t = get_fold_restore [of "Num 0" ?a sample_throwing 0 sample_counting]
  from t have "js_lt (Num 0) (numEvents ?a) \<longrightarrow>
      numEvents (snd (snd (EventArray_get (Num 0) sample_throwing 0 ?a))) = numEvents ?a
      \<and> fst (EventArray_get (Num 0) sample_throwing 0 ?a)
          = (case fst (sample_throwing 0 (?a\<lparr>numEvents := Num 0\<rparr>)) of
               None \<Rightarrow> Inr () | Some err \<Rightarrow> Inl err)"
    by (rule conjunct1)
  from this h have c1: "numEvents (snd (snd (EventArray_get (Num 0) sample_throwing 0 ?a))) = numEvents ?a
      \<and> fst (EventArray_get (Num 0) sample_throwing 0 ?a)
          = (case fst (sample_throwing 0 (?a\<lparr>numEvents := Num 0\<rparr>)) of
               None \<Rightarrow> Inr () | Some err \<Rightarrow> Inl err)"
    by (rule mp)
  from t have c2: "numEvents (snd (snd (EventArray_fold sample_counting 0 ?a))) = numEvents ?a"
    by (rule conjunct2)
  from c1 have c1': "numEvents (snd (snd (EventArray_get (Num 0) sample_throwing 0 ?a))) = Num 2"
    by simp
  from c2 have c2': "numEvents (snd (snd (EventArray_fold sample_counting 0 ?a))) = Num 2"
    by simp
  from h g1 g2 f c1' c2' show ?thesis by blast
qed

section \<open>The cursor stays within the capacity\<close>





















section \<open>The generator\<close>

lemma iter_loop_quit_last:
  "iter_loop ET env interval fuel nextFrame n e = pre @ Yield ev # post \<Longrightarrow>
     type ev = ET ''QUIT'' \<Longrightarrow> post = [Return]"
proof (induction fuel arbitrary: nextFrame n e pre)
  case 0
  then show ?case by simp
next
  case (Suc fuel)
  obtain r n1 e1 where p: "Event_poll (env_pollEvent env) n e = (r, n1, e1)"
    by (cases "Event_poll (env_pollEvent env) n e") auto
  show ?case
  proof (cases r)
    case True
    obtain n2 e2 where c: "env_consumer env n1 e1 = (n2, e2)"
      by (cases "env_consumer env n1 e1") auto
    show ?thesis
    proof (cases "type e1 = ET ''QUIT''")
      case q: True
      with True p c Suc.prems(1) have "[Yield e1, Return] = pre @ Yield ev # post"
        by simp
      then show ?thesis
        by (cases pre) (auto simp: Cons_eq_append_conv)
    next
      case q: False
      with True p c Suc.prems(1)
      have eq: "Yield e1 # iter_loop ET env interval fuel nextFrame n2 e2 = pre @ Yield ev # post"
        by simp
      show ?thesis
      proof (cases pre)
        case Nil
        with eq have "e1 = ev" by simp
        with q Suc.prems(2) show ?thesis by simp
      next
        case (Cons x pre')
        with eq have "iter_loop ET env interval fuel nextFrame n2 e2 = pre' @ Yield ev # post"
          by simp
        from Suc.IH [OF this Suc.prems(2)] show ?thesis .
      qed
    qed
  next
    case False
    show ?thesis
    proof (cases "env_onIdle env")
      case None
      let ?d = "if nextFrame - env_now env n1 > 0 then nextFrame - env_now env n1 else 0"
      from None False p Suc.prems(1)
      have eq: "Sleep ?d # iter_loop ET env interval fuel (nextFrame + interval)
                  (env_sleep env ?d n1) e1 = pre @ Yield ev # post"
        by (simp add: Let_def)
      then obtain pre' where "pre = Sleep ?d # pre'"
        by (cases pre) auto
      with eq have "iter_loop ET env interval fuel (nextFrame + interval)
                  (env_sleep env ?d n1) e1 = pre' @ Yield ev # post"
        by simp
      from Suc.IH [OF this Suc.prems(2)] show ?thesis .
    next
      case (Some f)
      let ?d = "if nextFrame - env_now env (f n1) > 0 then nextFrame - env_now env (f n1) else 0"
      from Some False p Suc.prems(1)
      have eq: "Idle # Sleep ?d # iter_loop ET env interval fuel (nextFrame + interval)
                  (env_sleep env ?d (f n1)) e1 = pre @ Yield ev # post"
        by (simp add: Let_def)
      then obtain pre1 where p1: "pre = Idle # pre1"
        by (cases pre) auto
      with eq obtain pre' where "pre1 = Sleep ?d # pre'"
        by (cases pre1) auto
      with eq p1 have "iter_loop ET env interval fuel (nextFrame + interval)
                  (env_sleep env ?d (f n1)) e1 = pre' @ Yield ev # post"
        by simp
      from Suc.IH [OF this Suc.prems(2)] show ?thesis .
    qed
  qed
qed

text \<open>
  A poll that loads a record tagged \<open>QUIT\<close> is the last step of the run: the event is
  yielded and the generator returns, without a further poll, \<open>onIdle\<close> or timer.
\<close>

lemma iter_loop_returns_on_quit:
  assumes "Event_poll (env_pollEvent env) n e = (True, n1, e1)" and "type e1 = ET ''QUIT''"
  shows "iter_loop ET env interval (Suc fuel) nextFrame n e = [Yield e1, Return]"
  using assms by (simp split: prod.splits)

text \<open>
  Claim C3.  In every run of \<open>iter\<close>, whatever the native queue delivers and whatever the
  consumer and \<open>onIdle\<close> do, a yielded event whose cached tag is \<open>QUIT\<close> is followed by
  the return of the generator and by nothing else: no poll, no \<open>onIdle\<close>, no timer and no
  further yield.
\<close>

theorem iter_stops_at_quit:
  "Event_iter ET env interval fuel n e = pre @ Yield ev # post \<Longrightarrow>
     type ev = ET ''QUIT'' \<Longrightarrow> post = [Return]"
  unfolding Event_iter_def by (rule iter_loop_quit_last)

lemma getUint32_sample_record:
  "getUint32 (sample_record b0 b1 @ rest) 0 = ucast b0 + 256 * ucast b1"
  by (simp add: getUint32_def sample_record_def)

lemma length_sample_record: "length (sample_record b0 b1) = 128"
  by (simp add: sample_record_def)

lemma poll_sample_record:
  "Event_poll SDL_pollEvent (sample_record b0 b1 # q) \<lparr>buffer = mem, type = t\<rparr>
     = (True, q, \<lparr>buffer = sample_record b0 b1 @ drop 128 mem, type = ucast b0 + 256 * ucast b1\<rparr>)"
  by (simp add: Event_poll_def SDL_pollEvent_def Event_readType_def getUint32_sample_record
      length_sample_record)

lemma poll_no_record:
  "Event_poll SDL_pollEvent [] e = (False, [], e)"
  by (simp add: Event_poll_def SDL_pollEvent_def)

theorem iter_stops_at_quit_witness:
  "Event_iter sample_EventType sample_env (50 / 3) 3 [sample_record 0 3] Event_new
     = [Yield \<lparr>buffer = sample_record 0 3, type = 0x300\<rparr>, Idle, Sleep (50 / 3)]
       @ Yield \<lparr>buffer = sample_record 0 1, type = 0x100\<rparr> # [Return]
   \<and> type \<lparr>buffer = sample_record 0 1, type = 0x100\<rparr> = sample_EventType ''QUIT''"
proof -
  let ?k = "\<lparr>buffer = sample_record 0 3, type = 0x300\<rparr>"
  let ?q = "\<lparr>buffer = sample_record 0 1, type = 0x100\<rparr>"
  have three: "(3::nat) = Suc (Suc (Suc 0))" by simp
  have h1: "Event_iter sample_EventType sample_env (50 / 3) 3 [sample_record 0 3] Event_new
     = [Yield ?k, Idle, Sleep (50 / 3)] @ Yield ?q # [Return]"
    unfolding Event_iter_def three
    by (simp add: sample_env_def Event_new_def SizeOfSdlEvent_def poll_sample_record
        poll_no_record length_sample_record sample_QUIT)
  have h2: "type ?q = sample_EventType ''QUIT''"
    by (simp add: sample_QUIT)
  from iter_stops_at_quit [OF h1 h2] have "[Return] = [Return]" .
  with h1 h2 show ?thesis by blast
qed

section \<open>Pushing a quit event\<close>

lemma pushQuit_literal_apply:
  "pushQuit_literal ET e k =
     (case e k of
        Some v \<Rightarrow> Some v
      | None \<Rightarrow>
          (if k = ''timestamp'' then Some (BigInt 0)
           else if k = ''reserved'' then Some (Number 0)
           else if k = ''type'' then Some (Number (uint (ET ''QUIT'')))
           else None))"
  by (simp add: pushQuit_literal_def map_add_def split: option.splits)

lemma js_lt_not_ge: "js_lt x y \<Longrightarrow> \<not> js_ge x y"
  by (cases x; cases y) simp_all

lemma ToIndex_nat: "ToIndex (Num (real k)) = Inr k"
  by (simp add: ToIndex_def)

lemma EventArray_dt_below_capacity:
  assumes "numEvents a = Num (real k)" and "js_lt (numEvents a) (maxEvents a)"
    and "(k + 1) * SizeOfSdlEvent \<le> length (buf a)"
  shows "EventArray_dt a
     = Inr \<lparr>byteOffset = k * SizeOfSdlEvent, byteLength = SizeOfSdlEvent\<rparr>"
proof -
  from assms(2) have ng: "\<not> js_ge (numEvents a) (maxEvents a)"
    by (rule js_lt_not_ge)
  have "js_times (numEvents a) (Num (real SizeOfSdlEvent)) = Num (real (k * SizeOfSdlEvent))"
    using assms(1) by simp
  then have off: "ToIndex (js_times (numEvents a) (Num (real SizeOfSdlEvent)))
      = Inr (k * SizeOfSdlEvent)"
    by (simp only: ToIndex_nat)
  from assms(3) have "\<not> (k * SizeOfSdlEvent > length (buf a)
      \<or> k * SizeOfSdlEvent + SizeOfSdlEvent > length (buf a))"
    by simp
  with ng off show ?thesis
    by (simp add: EventArray_dt_def DataView_new_def)
qed

text \<open>
  Claim C7.  The record that \<open>pushQuit\<close> hands to the writer has, for each of \<open>type\<close>,
  \<open>reserved\<close> and \<open>timestamp\<close>, the value given in \<open>e\<close> when \<open>e\<close> has the property, and
  otherwise \<open>EventType.QUIT\<close>, \<open>0\<close> and \<open>0n\<close>; every other property is as in \<open>e\<close>.  On an
  \<open>Event\<close> the record is written through the view of the whole buffer and \<open>push\<close> runs
  once, on the written buffer.  On an \<open>EventArray\<close> below its capacity the record is
  written into the slot at the cursor and \<open>push\<close> advances the cursor by one.
\<close>

theorem pushQuit_merges:
  "pushQuit_literal ET e ''type''
     = Some (case e ''type'' of Some v \<Rightarrow> v | None \<Rightarrow> Number (uint (ET ''QUIT'')))
   \<and> pushQuit_literal ET e ''reserved''
     = Some (case e ''reserved'' of Some v \<Rightarrow> v | None \<Rightarrow> Number 0)
   \<and> pushQuit_literal ET e ''timestamp''
     = Some (case e ''timestamp'' of Some v \<Rightarrow> v | None \<Rightarrow> BigInt 0)
   \<and> (\<forall>k. k \<noteq> ''type'' \<and> k \<noteq> ''reserved'' \<and> k \<noteq> ''timestamp'' \<longrightarrow>
          pushQuit_literal ET e k = e k)
   \<and> Event_pushQuit ET write_QuitEvent pushEvent e n ev
     = (case pushEvent n
               (DataView_modify \<lparr>byteOffset = 0, byteLength = SizeOfSdlEvent\<rparr>
                  (write_QuitEvent (pushQuit_literal ET e)) (buffer ev)) of
          (r, n', mem') \<Rightarrow> (Inr (), n', ev\<lparr>buffer := mem'\<rparr>))
   \<and> (numEvents a = Num (real k) \<and> js_lt (numEvents a) (maxEvents a)
        \<and> (k + 1) * SizeOfSdlEvent \<le> length (buf a) \<longrightarrow>
      EventArray_pushQuit ET write_QuitEvent e a
        = (Inr (),
           a\<lparr>buf := DataView_modify
                      \<lparr>byteOffset = k * SizeOfSdlEvent, byteLength = SizeOfSdlEvent\<rparr>
                      (write_QuitEvent (pushQuit_literal ET e)) (buf a),
             numEvents := Num (real k + 1)\<rparr>))"
proof (intro conjI impI allI)
  show "pushQuit_literal ET e ''type''
     = Some (case e ''type'' of Some v \<Rightarrow> v | None \<Rightarrow> Number (uint (ET ''QUIT'')))"
    by (simp add: pushQuit_literal_apply split: option.splits)
  show "pushQuit_literal ET e ''reserved''
     = Some (case e ''reserved'' of Some v \<Rightarrow> v | None \<Rightarrow> Number 0)"
    by (simp add: pushQuit_literal_apply split: option.splits)
  show "pushQuit_literal ET e ''timestamp''
     = Some (case e ''timestamp'' of Some v \<Rightarrow> v | None \<Rightarrow> BigInt 0)"
    by (simp add: pushQuit_literal_apply split: option.splits)
  show "pushQuit_literal ET e k = e k"
    if "k \<noteq> ''type'' \<and> k \<noteq> ''reserved'' \<and> k \<noteq> ''timestamp''" for k
    using that by (simp add: pushQuit_literal_apply split: option.splits)
  show "Event_pushQuit ET write_QuitEvent pushEvent e n ev
     = (case pushEvent n
               (DataView_modify \<lparr>byteOffset = 0, byteLength = SizeOfSdlEvent\<rparr>
                  (write_QuitEvent (pushQuit_literal ET e)) (buffer ev)) of
          (r, n', mem') \<Rightarrow> (Inr (), n', ev\<lparr>buffer := mem'\<rparr>))"
    by (simp add: Event_pushQuit_def Event_dt_def Event_push_def split: prod.splits)
  show "EventArray_pushQuit ET write_QuitEvent e a
        = (Inr (),
           a\<lparr>buf := DataView_modify
                      \<lparr>byteOffset = k * SizeOfSdlEvent, byteLength = SizeOfSdlEvent\<rparr>
                      (write_QuitEvent (pushQuit_literal ET e)) (buf a),
             numEvents := Num (real k + 1)\<rparr>)"
    if h: "numEvents a = Num (real k) \<and> js_lt (numEvents a) (maxEvents a)
        \<and> (k + 1) * SizeOfSdlEvent \<le> length (buf a)"
  proof -
    from h have h1: "numEvents a = Num (real k)" and h2: "js_lt (numEvents a) (maxEvents a)"
      and h3: "(k + 1) * SizeOfSdlEvent \<le> length (buf a)"
      by blast+
    have "EventArray_dt a
       = Inr \<lparr>byteOffset = k * SizeOfSdlEvent, byteLength = SizeOfSdlEvent\<rparr>"
      using h1 h2 h3 by (rule EventArray_dt_below_capacity)
    moreover from h2 have "\<not> js_ge (numEvents a) (maxEvents a)"
      by (rule js_lt_not_ge)
    ultimately show ?thesis
      using h1 by (simp add: EventArray_pushQuit_def EventArray_write_push_def EventArray_push_def)
  qed
qed

theorem pushQuit_merges_witness:
  "pushQuit_literal sample_EventType [''timestamp'' \<mapsto> BigInt 5] ''type'' = Some (Number 256)
   \<and> pushQuit_literal sample_EventType [''timestamp'' \<mapsto> BigInt 5] ''timestamp'' = Some (BigInt 5)
   \<and> pushQuit_literal sample_EventType [''timestamp'' \<mapsto> BigInt 5] ''reserved'' = Some (Number 0)
   \<and> Event_pushQuit sample_EventType sample_write_QuitEvent sample_pushEvent
        [''timestamp'' \<mapsto> BigInt 5] [] Event_new
       = (Inr (), [sample_record 0 1], \<lparr>buffer = sample_record 0 1, type = 0\<rparr>)
   \<and> (numEvents \<lparr>buf = replicate 256 0, numEvents = Num 1, maxEvents = Num 2\<rparr> = Num (real (1::nat))
      \<and> js_lt (numEvents \<lparr>buf = replicate 256 0, numEvents = Num 1, maxEvents = Num 2\<rparr>)
          (maxEvents \<lparr>buf = replicate 256 0, numEvents = Num 1, maxEvents = Num 2\<rparr>)
      \<and> (1 + 1) * SizeOfSdlEvent
          \<le> length (buf \<lparr>buf = replicate 256 0, numEvents = Num 1, maxEvents = Num 2\<rparr>))
   \<and> EventArray_pushQuit sample_EventType sample_write_QuitEvent [''timestamp'' \<mapsto> BigInt 5]
        \<lparr>buf = replicate 256 0, numEvents = Num 1, maxEvents = Num 2\<rparr>
       = (Inr (), \<lparr>buf = replicate 128 0 @ sample_record 0 1, numEvents = Num 2, maxEvents = Num 2\<rparr>)"
proof -
  let ?e = "[''timestamp'' \<mapsto> BigInt 5]"
  let ?a = "\<lparr>buf = replicate 256 (0::u8), numEvents = Num 1, maxEvents = Num 2\<rparr>"
  note t = pushQuit_merges [of sample_EventType ?e sample_write_QuitEvent sample_pushEvent
      "[]" Event_new ?a 1]
  have lit: "pushQuit_literal sample_EventType ?e ''type'' = Some (Number 256)"
    using t by (simp add: sample_QUIT)
  have ts: "pushQuit_literal sample_EventType ?e ''timestamp'' = Some (BigInt 5)"
    using t by simp
  have rs: "pushQuit_literal sample_EventType ?e ''reserved'' = Some (Number 0)"
    using t by simp
  have "(126::nat) = Suc (Suc 124)" by simp
  then have rep: "replicate 126 (0::u8) = 0 # 0 # replicate 124 0"
    by (simp only: replicate_Suc)
  have wr: "sample_write_QuitEvent (pushQuit_literal sample_EventType ?e) (replicate 128 0)
      = sample_record 0 1"
    by (simp add: sample_write_QuitEvent_def lit sample_record_def rep)
  have dv0: "DataView_modify \<lparr>byteOffset = 0, byteLength = SizeOfSdlEvent\<rparr>
       (sample_write_QuitEvent (pushQuit_literal sample_EventType ?e)) (buffer Event_new)
      = sample_record 0 1"
    by (simp add: DataView_modify_def DataView_bytes_def Event_new_def SizeOfSdlEvent_def wr
        length_sample_record)
  have ev: "Event_pushQuit sample_EventType sample_write_QuitEvent sample_pushEvent ?e [] Event_new
       = (Inr (), [sample_record 0 1], \<lparr>buffer = sample_record 0 1, type = 0\<rparr>)"
  proof -
    from t have "Event_pushQuit sample_EventType sample_write_QuitEvent sample_pushEvent ?e [] Event_new
       = (case sample_pushEvent []
               (DataView_modify \<lparr>byteOffset = 0, byteLength = SizeOfSdlEvent\<rparr>
                  (sample_write_QuitEvent (pushQuit_literal sample_EventType ?e)) (buffer Event_new)) of
          (r, n', mem') \<Rightarrow> (Inr (), n', Event_new\<lparr>buffer := mem'\<rparr>))"
      by blast
    then show ?thesis
      unfolding dv0 by (simp add: sample_pushEvent_def Event_new_def)
  qed
  have h: "numEvents ?a = Num (real (1::nat)) \<and> js_lt (numEvents ?a) (maxEvents ?a)
      \<and> (1 + 1) * SizeOfSdlEvent \<le> length (buf ?a)"
    by (simp add: SizeOfSdlEvent_def)
  have dv1: "DataView_modify \<lparr>byteOffset = 1 * SizeOfSdlEvent, byteLength = SizeOfSdlEvent\<rparr>
       (sample_write_QuitEvent (pushQuit_literal sample_EventType ?e)) (buf ?a)
      = replicate 128 0 @ sample_record 0 1"
    by (simp add: DataView_modify_def DataView_bytes_def SizeOfSdlEvent_def wr
        length_sample_record)
  have ar: "EventArray_pushQuit sample_EventType sample_write_QuitEvent ?e ?a
       = (Inr (), \<lparr>buf = replicate 128 0 @ sample_record 0 1, numEvents = Num 2, maxEvents = Num 2\<rparr>)"
  proof -
    from t h have "EventArray_pushQuit sample_EventType sample_write_QuitEvent ?e ?a
        = (Inr (),
           ?a\<lparr>buf := DataView_modify
                      \<lparr>byteOffset = 1 * SizeOfSdlEvent, byteLength = SizeOfSdlEvent\<rparr>
                      (sample_write_QuitEvent (pushQuit_literal sample_EventType ?e)) (buf ?a),
             numEvents := Num (real (1::nat) + 1)\<rparr>)"
      by blast
    then show ?thesis
      unfolding dv1 by simp
  qed
  from lit ts rs ev h ar show ?thesis by blast
qed

end
